theory Spec2Isabelle
  imports Main
begin

section \<open>The rewrite-to-local request hook of \<^verbatim>\<open>mitmproxy/rewrite_to_local/main.py\<close>\<close>

text \<open>
  The script is an addon of an intercepting proxy. Its \<^verbatim>\<open>request\<close> hook receives the
  in-flight request, compares its host and path with a fixed staging host and path prefix,
  and either redirects the request to a local endpoint or leaves it alone; both branches
  write one line to the proxy's log.

  Python strings are modelled as \<^typ>\<open>string\<close>, a list of 8-bit characters. The two
  arrows of the log texts are outside ASCII and stand as their UTF-8 bytes. Everything the
  hook measures or slices is inside the ASCII prefix, where bytes and code points agree.
\<close>

subsection \<open>Module-level configuration\<close>

text \<open>
  \<^verbatim>\<open>STAGING_HOST\<close>, \<^verbatim>\<open>LOCAL_ADDRESS\<close> and \<^verbatim>\<open>LOCAL_PORT\<close> are read once from the process
  environment when the module is imported; the hook only reads them. They are the fields
  of a record that the hook takes as an argument. \<open>default_config\<close> holds the fallbacks
  of the three \<^verbatim>\<open>os.getenv\<close> calls, the values in force when the environment sets none.
\<close>

record config =
  STAGING_HOST :: string
  LOCAL_ADDRESS :: string
  LOCAL_PORT :: int

definition default_config :: config where
  "default_config =
     \<lparr>STAGING_HOST = ''staging.api.example.com'',
      LOCAL_ADDRESS = ''127.0.0.1'',
      LOCAL_PORT = 5000\<rparr>"

definition MATCH_PREFIX :: string where
  "MATCH_PREFIX = ''/stg/v1/ubah-izin/''"

subsection \<open>The request object of the proxy\<close>

text \<open>
  The hook works on the proxy library's request object. The record below has the
  attributes the hook reads or assigns, the authority and the protocol version, which the
  library consults or rewrites behind those attributes, and the method and body, which
  nothing touches. Each field holds what the attribute of that name returns. As in the
  library, \<open>path\<close> is the request target with its query string (\<^verbatim>\<open>/index.html?a=b\<close>),
  \<open>authority\<close> is the authority of the request line or the HTTP/2 pseudo-header (empty
  when the request has none), and the header fields are an ordered sequence of name/value
  pairs whose names compare without regard to ASCII letter case.
\<close>

type_synonym headers = "(string \<times> string) list"

record http_request =
  "method" :: string
  scheme :: string
  authority :: string
  host :: string
  port :: int
  path :: string
  http_version :: string
  headers :: headers
  content :: string

definition lower_char :: "char \<Rightarrow> char" where
  "lower_char c =
     (let n = (of_char c :: nat) in if 65 \<le> n \<and> n \<le> 90 then char_of (n + 32) else c)"

definition lower :: "string \<Rightarrow> string" where
  "lower s = map lower_char s"

definition same_key :: "string \<Rightarrow> string \<Rightarrow> bool" where
  "same_key a b = (lower a = lower b)"

text \<open>All values stored under a name, in order.\<close>

definition get_all :: "headers \<Rightarrow> string \<Rightarrow> string list" where
  "get_all hs k = map snd (filter (\<lambda>f. same_key (fst f) k) hs)"

text \<open>
  \<^verbatim>\<open>headers.get(k)\<close>: nothing when no field has the name, else the values joined
  by a comma and a space. \<^verbatim>\<open>k in headers\<close> holds when there is such a field.
\<close>

definition header_get :: "headers \<Rightarrow> string \<Rightarrow> string option" where
  "header_get hs k =
     (case get_all hs k of
        [] \<Rightarrow> None
      | v # vs \<Rightarrow> Some (foldl (\<lambda>a b. a @ '', '' @ b) v vs))"

definition header_in :: "string \<Rightarrow> headers \<Rightarrow> bool" where
  "header_in k hs = (get_all hs k \<noteq> [])"

text \<open>
  \<^verbatim>\<open>headers[k] = v\<close>: the first field of that name keeps its place and its spelling of
  the name and takes the new value, every later field of that name is removed; when
  there is none, the field \<open>(k, v)\<close> is appended.
\<close>

fun set_item :: "headers \<Rightarrow> string \<Rightarrow> string \<Rightarrow> headers" where
  "set_item [] k v = [(k, v)]"
| "set_item (f # fs) k v =
     (if same_key (fst f) k
      then (fst f, v) # filter (\<lambda>g. \<not> same_key (fst g) k) fs
      else f # set_item fs k v)"

text \<open>Decimal text of an integer, as \<^verbatim>\<open>str\<close> and the f-strings print it.\<close>

definition digit_char :: "nat \<Rightarrow> char" where
  "digit_char d = char_of (48 + d)"

fun str_nat :: "nat \<Rightarrow> string" where
  "str_nat n = (if n < 10 then [digit_char n] else str_nat (n div 10) @ [digit_char (n mod 10)])"

declare str_nat.simps [simp del]

definition str_int :: "int \<Rightarrow> string" where
  "str_int i = (if i < 0 then CHR ''-'' # str_nat (nat (- i)) else str_nat (nat i))"

text \<open>
  The host with its port, the port left out when it is the scheme's default; and
  \<^verbatim>\<open>url\<close>, the library's attribute that puts scheme, host, port and path together
  (for a \<^verbatim>\<open>CONNECT\<close> request it is host and port alone, and a path \<^verbatim>\<open>*\<close> is left out).
\<close>

definition default_port :: "string \<Rightarrow> int option" where
  "default_port s =
     (if s = ''http'' then Some 80 else if s = ''https'' then Some 443 else None)"

definition hostport :: "string \<Rightarrow> string \<Rightarrow> int \<Rightarrow> string" where
  "hostport s h p = (if default_port s = Some p then h else h @ '':'' @ str_int p)"

definition url :: "http_request \<Rightarrow> string" where
  "url r =
     (if method r = ''CONNECT'' then host r @ '':'' @ str_int (port r)
      else scheme r @ ''://'' @ hostport (scheme r) (host r) (port r)
             @ (if path r = ''*'' then [] else path r))"

text \<open>
  Assigning \<^verbatim>\<open>host\<close> or \<^verbatim>\<open>port\<close> goes through the library's setters. Each stores the
  value and then brings the request's other names for its destination in line: a
  \<^verbatim>\<open>Host\<close> header, if the request has one, and the authority, if it is not empty, are
  both set to the host with its port, computed with the scheme the request has at that
  moment. Assigning \<^verbatim>\<open>path\<close>, \<^verbatim>\<open>scheme\<close> or a header field changes that attribute alone.
\<close>

definition update_host_and_authority :: "http_request \<Rightarrow> http_request" where
  "update_host_and_authority r =
     (let val = hostport (scheme r) (host r) (port r);
          r1 = (if header_in ''Host'' (headers r)
                then r\<lparr>headers := set_item (headers r) ''Host'' val\<rparr> else r)
      in if authority r1 \<noteq> [] then r1\<lparr>authority := val\<rparr> else r1)"

definition set_host :: "string \<Rightarrow> http_request \<Rightarrow> http_request" where
  "set_host v r = update_host_and_authority (r\<lparr>host := v\<rparr>)"

definition set_port :: "int \<Rightarrow> http_request \<Rightarrow> http_request" where
  "set_port p r = update_host_and_authority (r\<lparr>port := p\<rparr>)"

text \<open>
  \<^verbatim>\<open>pretty_host\<close> is the library's read-only attribute: the host that the request itself
  names, and the \<open>host\<close> attribute when it names none. The request names its host in
  its authority when it is an HTTP/2 or HTTP/3 request that has one, else in its
  \<^verbatim>\<open>Host\<close> header. That text is parsed as \<^verbatim>\<open>host\<close> or \<^verbatim>\<open>host:port\<close>; when it does
  not parse, it is taken whole.

  The parse follows the library: the host is a run of characters without a colon, or a
  bracketed text; the port, if any, is a colon and decimal digits at the end; brackets
  around the host are dropped; the host must be a valid name or an IP address and the
  port at most 65535. A valid name has at most 255 characters and, a final dot aside,
  consists of labels of 1 to 63 letters, digits, hyphens and underscores, separated by
  dots. The model knows ASCII names only: a name with characters outside ASCII counts as
  not valid, and a label in the \<^verbatim>\<open>xn--\<close> form is taken as it stands.
\<close>

fun split_on :: "char \<Rightarrow> string \<Rightarrow> string list" where
  "split_on c [] = [[]]"
| "split_on c (x # xs) =
     (if x = c then [] # split_on c xs
      else (case split_on c xs of [] \<Rightarrow> [[x]] | p # ps \<Rightarrow> (x # p) # ps))"

definition is_digit :: "char \<Rightarrow> bool" where
  "is_digit c = (let n = (of_char c :: nat) in 48 \<le> n \<and> n \<le> 57)"

definition is_alpha :: "char \<Rightarrow> bool" where
  "is_alpha c = (let n = (of_char c :: nat) in (65 \<le> n \<and> n \<le> 90) \<or> (97 \<le> n \<and> n \<le> 122))"

definition is_hex :: "char \<Rightarrow> bool" where
  "is_hex c =
     (let n = (of_char c :: nat) in
        (48 \<le> n \<and> n \<le> 57) \<or> (65 \<le> n \<and> n \<le> 70) \<or> (97 \<le> n \<and> n \<le> 102))"

definition digits_value :: "string \<Rightarrow> nat" where
  "digits_value ds = foldl (\<lambda>n c. 10 * n + (of_char c - 48)) 0 ds"

text \<open>Dotted-quad and colon-separated addresses, as Python's \<^verbatim>\<open>ipaddress\<close> accepts them.\<close>

definition octet_ok :: "string \<Rightarrow> bool" where
  "octet_ok ds =
     (ds \<noteq> [] \<and> list_all is_digit ds \<and> length ds \<le> 3
      \<and> (if length ds = 1 then True else hd ds \<noteq> CHR ''0'')
      \<and> digits_value ds \<le> 255)"

definition is_ipv4 :: "string \<Rightarrow> bool" where
  "is_ipv4 a = (let os = split_on (CHR ''.'') a in length os = 4 \<and> list_all octet_ok os)"

definition hextet_ok :: "string \<Rightarrow> bool" where
  "hextet_ok h = (h \<noteq> [] \<and> length h \<le> 4 \<and> list_all is_hex h)"

definition ipv6_groups :: "string \<Rightarrow> bool" where
  "ipv6_groups a =
     (let parts0 = split_on (CHR '':'') a in
      if length parts0 < 3 then False
      else if CHR ''.'' \<in> set (last parts0) \<and> \<not> is_ipv4 (last parts0) then False
      else
        (let parts = (if CHR ''.'' \<in> set (last parts0)
                      then butlast parts0 @ [''0'', ''0''] else parts0);
             n = length parts;
             skips = filter (\<lambda>i. parts ! i = []) [1 ..< n - 1]
         in if 9 < n then False
            else
              (case skips of
                 [] \<Rightarrow> n = 8 \<and> list_all hextet_ok parts
               | [k] \<Rightarrow>
                   (let hi = (if hd parts = [] then k - 1 else k);
                        lo = (if last parts = [] then n - k - 2 else n - k - 1)
                    in (if hd parts = [] then k = 1 else True)
                       \<and> (if last parts = [] then n - k - 1 = 1 else True)
                       \<and> hi + lo \<le> 7
                       \<and> list_all hextet_ok (take hi parts)
                       \<and> list_all hextet_ok (drop (n - lo) parts))
               | _ \<Rightarrow> False)))"

definition is_ipv6 :: "string \<Rightarrow> bool" where
  "is_ipv6 a =
     (let addr = takeWhile (\<lambda>c. c \<noteq> CHR ''%'') a;
          rest = dropWhile (\<lambda>c. c \<noteq> CHR ''%'') a
      in CHR ''/'' \<notin> set a
         \<and> (if rest = [] then True else tl rest \<noteq> [] \<and> CHR ''%'' \<notin> set (tl rest))
         \<and> ipv6_groups addr)"

definition label_valid :: "string \<Rightarrow> bool" where
  "label_valid l =
     (l \<noteq> [] \<and> length l \<le> 63
      \<and> list_all (\<lambda>c. is_alpha c \<or> is_digit c \<or> c = CHR ''-'' \<or> c = CHR ''_'') l)"

definition is_valid_host :: "string \<Rightarrow> bool" where
  "is_valid_host h =
     (let ls = split_on (CHR ''.'') h in
      if \<not> list_all (\<lambda>c. (of_char c :: nat) < 128) h then False
      else if h \<noteq> [] \<and> \<not> (list_all (\<lambda>l. l \<noteq> [] \<and> length l < 64) (butlast ls)
                             \<and> length (last ls) < 64) then False
      else if 255 < length h then False
      else if list_all label_valid
                (split_on (CHR ''.'') (if h \<noteq> [] \<and> last h = CHR ''.'' then butlast h else h))
           then True
      else if is_ipv4 h then True
      else is_ipv6 h)"

text \<open>The shape of a host before its validity is looked at, and the split at the port.\<close>

definition host_shape :: "string \<Rightarrow> bool" where
  "host_shape h =
     (if h = [] then False
      else if CHR '':'' \<notin> set h then True
      else 3 \<le> length h \<and> hd h = CHR ''['' \<and> last h = CHR '']'')"

definition split_port :: "string \<Rightarrow> (string \<times> string option) option" where
  "split_port a =
     (let ds = rev (takeWhile is_digit (rev a));
          p = take (length a - length ds) a
      in if ds \<noteq> [] \<and> p \<noteq> [] \<and> last p = CHR '':'' \<and> host_shape (butlast p)
         then Some (butlast p, Some ds)
         else if host_shape a then Some (a, None)
         else None)"

definition parse_authority :: "string \<Rightarrow> string \<times> int option" where
  "parse_authority a =
     (case split_port a of
        None \<Rightarrow> (a, None)
      | Some (h, ds) \<Rightarrow>
          (let h' = (if 2 \<le> length h \<and> hd h = CHR ''['' \<and> last h = CHR '']''
                     then butlast (tl h) else h)
           in if \<not> is_valid_host h' then (a, None)
              else (case ds of
                      None \<Rightarrow> (h', None)
                    | Some d \<Rightarrow>
                        if digits_value d \<le> 65535 then (h', Some (int (digits_value d)))
                        else (a, None))))"

definition is_http2 :: "http_request \<Rightarrow> bool" where
  "is_http2 r = (http_version r = ''HTTP/2.0'')"

definition is_http3 :: "http_request \<Rightarrow> bool" where
  "is_http3 r = (http_version r = ''HTTP/3'')"

definition host_header :: "http_request \<Rightarrow> string option" where
  "host_header r =
     (if (is_http2 r \<or> is_http3 r) \<and> authority r \<noteq> [] then Some (authority r)
      else header_get (headers r) ''Host'')"

definition pretty_host :: "http_request \<Rightarrow> string" where
  "pretty_host r =
     (case host_header r of
        None \<Rightarrow> host r
      | Some a \<Rightarrow> if a = [] then host r else fst (parse_authority a))"


subsection \<open>The log and exceptions\<close>

text \<open>
  The hook's only effect besides the request is its call of \<^verbatim>\<open>ctx.log.info\<close>. The state
  the hook runs in is the request of the flow and the sequence of texts handed to the
  log so far. The log is a collaborator of the proxy: \<open>logger\<close> tells, for a text,
  whether the call returns (\<open>None\<close>) or raises (\<open>Some e\<close>). A Python function either
  returns or raises, and what it assigned before raising stays assigned, so a run of the
  hook yields \<open>Inr ()\<close> or \<open>Inl e\<close> together with the state it leaves.
\<close>

datatype exn = Exn string

type_synonym logger = "string \<Rightarrow> exn option"

record hook_state =
  flow_request :: http_request
  ctx_log :: "string list"

definition ctx_log_info :: "logger \<Rightarrow> string \<Rightarrow> hook_state \<Rightarrow> (exn + unit) \<times> hook_state" where
  "ctx_log_info lg m s =
     ((case lg m of None \<Rightarrow> Inr () | Some e \<Rightarrow> Inl e), s\<lparr>ctx_log := ctx_log s @ [m]\<rparr>)"

subsection \<open>The request hook\<close>

definition startswith :: "string \<Rightarrow> string \<Rightarrow> bool" where
  "startswith s p = (take (length p) s = p)"

text \<open>The condition of the hook's \<^verbatim>\<open>if\<close>.\<close>

definition matches :: "config \<Rightarrow> http_request \<Rightarrow> bool" where
  "matches cfg req = (pretty_host req = STAGING_HOST cfg \<and> startswith (path req) MATCH_PREFIX)"

text \<open>The leading arrow of the rewrite text, U+21AA, and the arrow inside it, U+2192.\<close>

definition hook_arrow :: string where
  "hook_arrow = [CHR 0xE2, CHR 0x86, CHR 0xAA]"

definition right_arrow :: string where
  "right_arrow = [CHR 0xE2, CHR 0x86, CHR 0x92]"

text \<open>
  The hook, statement by statement. The slice \<^verbatim>\<open>req.path[len(MATCH_PREFIX)-1:]\<close> starts
  at index 17, since the prefix has 18 characters. The five assignments follow in the
  source's order, then the log call, which reads the method, URL and path of the request
  as already rewritten. The assignments of host and port are the library's setters, the
  other three change one attribute each.
\<close>

definition request :: "logger \<Rightarrow> config \<Rightarrow> hook_state \<Rightarrow> (exn + unit) \<times> hook_state" where
  "request lg cfg s =
     (let req = flow_request s in
      if matches cfg req then
        (let trimmed_path = drop (length MATCH_PREFIX - 1) (path req);
             req1 = req\<lparr>path := trimmed_path\<rparr>;
             req2 = set_host (LOCAL_ADDRESS cfg) req1;
             req3 = set_port (LOCAL_PORT cfg) req2;
             req4 = req3\<lparr>scheme := ''http''\<rparr>;
             req5 = req4\<lparr>headers := set_item (headers req4) ''Host'' (STAGING_HOST cfg)\<rparr>
         in ctx_log_info lg
              (hook_arrow @ '' '' @ method req5 @ '' '' @ url req5 @ '' '' @ right_arrow
                 @ '' http://'' @ LOCAL_ADDRESS cfg @ '':'' @ str_int (LOCAL_PORT cfg) @ path req5)
              (s\<lparr>flow_request := req5\<rparr>))
      else
        ctx_log_info lg
          (''[MITM] Ignored '' @ method req @ '' '' @ pretty_host req @ path req) s)"

text \<open>The two kinds of log text, told apart by how they begin.\<close>

definition is_rewritten_record :: "string \<Rightarrow> bool" where
  "is_rewritten_record m = startswith m (hook_arrow @ '' '')"

definition is_ignored_record :: "string \<Rightarrow> bool" where
  "is_ignored_record m = startswith m ''[MITM] Ignored ''"

text \<open>A logger whose calls all return, and one whose calls all raise.\<close>

definition quiet_logger :: logger where
  "quiet_logger = (\<lambda>m. None)"

definition broken_logger :: logger where
  "broken_logger = (\<lambda>m. Some (Exn ''OSError''))"

text \<open>
  The request of the end-to-end scenario, \<^verbatim>\<open>GET http://staging.api.example.com/stg/v1/ubah-izin/apply\<close>,
  as a proxy receives it: the request line carries the whole URL, so the request has an
  authority.
\<close>

definition scenario_request :: http_request where
  "scenario_request =
     \<lparr>method = ''GET'', scheme = ''http'', authority = ''staging.api.example.com'',
      host = ''staging.api.example.com'', port = 80,
      path = ''/stg/v1/ubah-izin/apply'', http_version = ''HTTP/1.1'',
      headers = [(''Host'', ''staging.api.example.com''), (''Accept'', ''*/*'')],
      content = []\<rparr>"

text \<open>The scenario's request as the hook finds it, with nothing logged yet.\<close>

definition scenario_state :: hook_state where
  "scenario_state = \<lparr>flow_request = scenario_request, ctx_log = []\<rparr>"

text \<open>The same request with the host spelled in capitals, in the attribute and in the header.\<close>

definition shouting_request :: http_request where
  "shouting_request =
     \<lparr>method = ''GET'', scheme = ''http'', authority = ''STAGING.API.EXAMPLE.COM'',
      host = ''STAGING.API.EXAMPLE.COM'', port = 80,
      path = ''/stg/v1/ubah-izin/apply'', http_version = ''HTTP/1.1'',
      headers = [(''Host'', ''STAGING.API.EXAMPLE.COM''), (''Accept'', ''*/*'')],
      content = []\<rparr>"

text \<open>The scenario's request with one letter of the path in capitals.\<close>

definition capital_path_request :: http_request where
  "capital_path_request = scenario_request\<lparr>path := ''/STG/v1/ubah-izin/apply''\<rparr>"

text \<open>A request for another site.\<close>

definition other_request :: http_request where
  "other_request =
     \<lparr>method = ''GET'', scheme = ''https'', authority = [], host = ''example.org'', port = 443,
      path = ''/index.html'', http_version = ''HTTP/1.1'',
      headers = [(''Host'', ''example.org''), (''Cookie'', ''a=1'')],
      content = []\<rparr>"

text \<open>
  A request for the staging host that arrived over TLS at an intercepted address: the host
  attribute is the address, the request has no authority, the header names the staging
  host, and the path has a query.
\<close>

definition tls_request :: http_request where
  "tls_request =
     \<lparr>method = ''POST'', scheme = ''https'', authority = [], host = ''10.0.0.7'', port = 443,
      path = ''/stg/v1/ubah-izin/apply?id=7&dry=1'', http_version = ''HTTP/1.1'',
      headers = [(''Content-Type'', ''application/json''), (''host'', ''staging.api.example.com:443''),
                 (''X-Trace'', ''abc'')],
      content = ''{}''\<rparr>"

text \<open>
  The scenario's request sent as a \<^verbatim>\<open>POST\<close> over HTTP/2, with a body and other header
  fields: the staging host stands in the authority and there is no \<^verbatim>\<open>Host\<close> header.
\<close>

definition post_request :: http_request where
  "post_request =
     \<lparr>method = ''POST'', scheme = ''https'', authority = ''staging.api.example.com:443'',
      host = ''10.0.0.7'', port = 443,
      path = ''/stg/v1/ubah-izin/apply'', http_version = ''HTTP/2.0'',
      headers = [(''content-type'', ''application/json''), (''x-trace'', ''abc'')],
      content = ''{}''\<rparr>"

section \<open>Properties\<close>

subsection \<open>Header fields\<close>

lemma same_key_refl: "same_key k k"
  by (simp add: same_key_def)

lemma get_all_set_item: "get_all (set_item hs k v) k = [v]"
proof (induction hs)
  case Nil
  show ?case by (simp add: get_all_def same_key_refl)
next
  case (Cons f fs)
  show ?case
  proof (cases "same_key (fst f) k")
    case True
    have "filter (\<lambda>f. same_key (fst f) k) (filter (\<lambda>g. \<not> same_key (fst g) k) fs) = []"
      by (induction fs) auto
    with True show ?thesis by (simp add: get_all_def)
  next
    case False
    with Cons.IH show ?thesis by (simp add: get_all_def)
  qed
qed

lemma header_get_set_item: "header_get (set_item hs k v) k = Some v"
  by (simp add: header_get_def get_all_set_item)

lemma header_in_set_item: "header_in k (set_item hs k v)"
  by (simp add: header_in_def get_all_set_item)


lemma set_item_overrides: "set_item (set_item hs k v) k w = set_item hs k w"
proof (induction hs)
  case Nil
  show ?case by (simp add: same_key_refl)
next
  case (Cons f fs)
  show ?case
  proof (cases "same_key (fst f) k")
    case True
    have "filter (\<lambda>g. \<not> same_key (fst g) k) (filter (\<lambda>g. \<not> same_key (fst g) k) fs)
            = filter (\<lambda>g. \<not> same_key (fst g) k) fs"
      by simp
    with True show ?thesis by simp
  next
    case False
    with Cons.IH show ?thesis by simp
  qed
qed



subsection \<open>The prefix and the trimmed path\<close>

lemma length_MATCH_PREFIX: "length MATCH_PREFIX = 18"
  by (simp add: MATCH_PREFIX_def)

lemma startswith_split:
  assumes "startswith p MATCH_PREFIX"
  shows "p = ''/stg/v1/ubah-izin'' @ drop 17 p"
    and "drop 17 p = CHR ''/'' # drop 18 p"
proof -
  from assms have "take 18 p = MATCH_PREFIX"
    unfolding startswith_def length_MATCH_PREFIX .
  then have t: "take 18 p = ''/stg/v1/ubah-izin/''"
    by (simp only: MATCH_PREFIX_def)
  have "take 17 p = take 17 (take 18 p)" by simp
  also have "\<dots> = ''/stg/v1/ubah-izin''" by (simp only: t) simp
  finally have "take 17 p = ''/stg/v1/ubah-izin''" .
  then show "p = ''/stg/v1/ubah-izin'' @ drop 17 p"
    by (metis append_take_drop_id)
  have "p = take 18 p @ drop 18 p" by simp
  then have "p = ''/stg/v1/ubah-izin/'' @ drop 18 p" by (simp only: t)
  then have "drop 17 p = drop 17 (''/stg/v1/ubah-izin/'' @ drop 18 p)" by simp
  then show "drop 17 p = CHR ''/'' # drop 18 p" by simp
qed


subsection \<open>The setters of host and port\<close>

text \<open>
  What the two setters, one after the other, leave of a request. The header they may have
  refreshed is overridden by any later assignment of it (\<open>set_item_overrides\<close>); the
  authority, when there was one, ends as the new host with the new port.
\<close>

lemma set_port_set_host:
  "set_port p (set_host h r) =
     r\<lparr>host := h, port := p,
       headers := (if header_in ''Host'' (headers r)
                   then set_item (headers r) ''Host'' (hostport (scheme r) h p)
                   else headers r),
       authority := (if authority r = [] \<or> hostport (scheme r) h (port r) = [] then []
                     else hostport (scheme r) h p)\<rparr>"
  by (simp add: set_port_def set_host_def update_host_and_authority_def Let_def
      header_in_set_item set_item_overrides)

subsection \<open>The two branches of the hook\<close>

lemma request_match:
  assumes "matches cfg (flow_request s)"
  shows "flow_request (snd (request lg cfg s)) =
           (flow_request s)\<lparr>path := drop 17 (path (flow_request s)),
                            host := LOCAL_ADDRESS cfg, port := LOCAL_PORT cfg, scheme := ''http'',
                            headers := set_item (headers (flow_request s)) ''Host'' (STAGING_HOST cfg),
                            authority :=
                              (if authority (flow_request s) = []
                                  \<or> hostport (scheme (flow_request s)) (LOCAL_ADDRESS cfg)
                                       (port (flow_request s)) = []
                               then []
                               else hostport (scheme (flow_request s)) (LOCAL_ADDRESS cfg)
                                      (LOCAL_PORT cfg))\<rparr>"
  using assms
  by (simp add: request_def Let_def ctx_log_info_def length_MATCH_PREFIX set_port_set_host
      set_item_overrides)

lemma request_no_match:
  assumes "\<not> matches cfg (flow_request s)"
  shows "request lg cfg s =
           ctx_log_info lg (''[MITM] Ignored '' @ method (flow_request s) @ '' ''
              @ pretty_host (flow_request s) @ path (flow_request s)) s"
  using assms by (simp add: request_def Let_def)

lemma request_log:
  "ctx_log (snd (request lg cfg s)) = ctx_log s @ [last (ctx_log (snd (request lg cfg s)))]"
  by (simp add: request_def Let_def ctx_log_info_def)

lemma request_log_match:
  assumes "matches cfg (flow_request s)"
  shows "is_rewritten_record (last (ctx_log (snd (request lg cfg s))))"
  using assms
  by (simp add: request_def Let_def ctx_log_info_def is_rewritten_record_def startswith_def
      hook_arrow_def)

lemma request_log_no_match:
  assumes "\<not> matches cfg (flow_request s)"
  shows "is_ignored_record (last (ctx_log (snd (request lg cfg s))))"
  using assms
  by (simp add: request_def Let_def ctx_log_info_def is_ignored_record_def startswith_def)

lemma record_kinds_disjoint: "is_ignored_record m \<Longrightarrow> \<not> is_rewritten_record m"
  by (cases m)
    (auto simp: is_ignored_record_def is_rewritten_record_def startswith_def hook_arrow_def)

lemma request_raises:
  "fst (request lg cfg s)
     = (case lg (last (ctx_log (snd (request lg cfg s)))) of None \<Rightarrow> Inr () | Some e \<Rightarrow> Inl e)"
  by (simp add: request_def Let_def ctx_log_info_def)

lemma request_state_any_logger: "snd (request lg cfg s) = snd (request lg' cfg s)"
  by (simp add: request_def Let_def ctx_log_info_def)

subsection \<open>Concrete requests\<close>

lemma digit_chars: "digit_char 0 = CHR ''0''" "digit_char 5 = CHR ''5''"
  by code_simp+

lemma str_int_5000: "str_int 5000 = ''5000''"
  by (simp add: str_int_def str_nat.simps[of 5000] str_nat.simps[of 500] str_nat.simps[of 50]
      str_nat.simps[of 5] digit_chars)

lemma default_config_fields:
  "STAGING_HOST default_config = ''staging.api.example.com''"
  "LOCAL_ADDRESS default_config = ''127.0.0.1''"
  "LOCAL_PORT default_config = 5000"
  by (simp_all add: default_config_def)

lemma scenario_matches: "matches default_config scenario_request"
  by code_simp

lemma split_port_443:
  "split_port ''staging.api.example.com:443'' = Some (''staging.api.example.com'', Some ''443'')"
  by code_simp

lemma valid_staging: "is_valid_host ''staging.api.example.com''"
  by code_simp

lemma digits_443: "digits_value ''443'' = 443"
  by (simp add: digits_value_def)

lemma parse_authority_443:
  "parse_authority ''staging.api.example.com:443'' = (''staging.api.example.com'', Some 443)"
  by (simp add: parse_authority_def split_port_443 valid_staging digits_443)

lemma host_header_tls: "host_header tls_request = Some ''staging.api.example.com:443''"
  by code_simp

lemma host_header_post: "host_header post_request = Some ''staging.api.example.com:443''"
  by code_simp

lemma staging_paths:
  "startswith (path tls_request) MATCH_PREFIX"
  "startswith (path post_request) MATCH_PREFIX"
  by code_simp+

lemma pretty_host_443:
  "pretty_host tls_request = ''staging.api.example.com''"
  "pretty_host post_request = ''staging.api.example.com''"
  by (simp_all add: pretty_host_def host_header_tls host_header_post parse_authority_443)

lemma tls_matches: "matches default_config tls_request"
  by (simp add: matches_def pretty_host_443 staging_paths default_config_def)


lemma pretty_host_shouting: "pretty_host shouting_request = ''STAGING.API.EXAMPLE.COM''"
  by code_simp

lemma pretty_host_other: "pretty_host other_request = ''example.org''"
  by code_simp

lemma pretty_host_staging:
  "pretty_host scenario_request = ''staging.api.example.com''"
  "pretty_host post_request = ''staging.api.example.com''"
  "pretty_host capital_path_request = ''staging.api.example.com''"
  by (code_simp, rule pretty_host_443(2), code_simp)

lemma scenario_headers:
  "set_item (headers scenario_request) ''Host'' ''staging.api.example.com''
     = [(''Host'', ''staging.api.example.com''), (''Accept'', ''*/*'')]"
  by code_simp

section \<open>The claims\<close>

text \<open>
  C1. With the default configuration (staging host \<^verbatim>\<open>staging.api.example.com\<close>, prefix
  \<^verbatim>\<open>/stg/v1/ubah-izin/\<close>, target \<^verbatim>\<open>127.0.0.1:5000\<close>), the hook turns the request
  \<^verbatim>\<open>GET http://staging.api.example.com/stg/v1/ubah-izin/apply\<close> into a \<^verbatim>\<open>GET\<close> request
  with path \<^verbatim>\<open>/apply\<close>, host \<^verbatim>\<open>127.0.0.1\<close>, port 5000 and scheme \<^verbatim>\<open>http\<close>, whose URL is
  \<^verbatim>\<open>http://127.0.0.1:5000/apply\<close> and whose \<^verbatim>\<open>Host\<close> header is \<^verbatim>\<open>staging.api.example.com\<close>,
  whatever the log held before and whatever the log call does. The theorem gives the
  whole request the hook leaves, the authority the setters rewrote included.
\<close>

theorem scenario_rewrite:
  "flow_request (snd (request lg default_config \<lparr>flow_request = scenario_request, ctx_log = l\<rparr>)) =
     \<lparr>method = ''GET'', scheme = ''http'', authority = ''127.0.0.1:5000'', host = ''127.0.0.1'',
      port = 5000, path = ''/apply'', http_version = ''HTTP/1.1'',
      headers = [(''Host'', ''staging.api.example.com''), (''Accept'', ''*/*'')], content = []\<rparr>
   \<and> url (flow_request (snd (request lg default_config \<lparr>flow_request = scenario_request, ctx_log = l\<rparr>)))
       = ''http://127.0.0.1:5000/apply''
   \<and> header_get (headers (flow_request (snd (request lg default_config
         \<lparr>flow_request = scenario_request, ctx_log = l\<rparr>)))) ''Host'' = Some ''staging.api.example.com''"
proof -
  let ?s = "\<lparr>flow_request = scenario_request, ctx_log = l\<rparr>"
  let ?r = "\<lparr>method = ''GET'', scheme = ''http'', authority = ''127.0.0.1:5000'', host = ''127.0.0.1'',
      port = 5000, path = ''/apply'', http_version = ''HTTP/1.1'',
      headers = [(''Host'', ''staging.api.example.com''), (''Accept'', ''*/*'')], content = []\<rparr>"
  have m: "matches default_config (flow_request ?s)"
    using scenario_matches by simp
  have a: "authority scenario_request \<noteq> []"
    and a1: "hostport (scheme scenario_request) ''127.0.0.1'' (port scenario_request) \<noteq> []"
    and a2: "hostport (scheme scenario_request) ''127.0.0.1'' 5000 = ''127.0.0.1:5000''"
    by (simp_all add: scenario_request_def hostport_def default_port_def str_int_5000)
  have "flow_request (snd (request lg default_config ?s)) =
      scenario_request\<lparr>path := drop 17 (path scenario_request),
         host := ''127.0.0.1'', port := 5000, scheme := ''http'',
         headers := set_item (headers scenario_request) ''Host'' ''staging.api.example.com'',
         authority := ''127.0.0.1:5000''\<rparr>"
    using request_match[OF m, of lg] a a1 a2 by (simp add: default_config_fields)
  also have "\<dots> = ?r"
    by (simp only: scenario_headers) (simp add: scenario_request_def)
  finally have r: "flow_request (snd (request lg default_config ?s)) = ?r" .
  have u: "url ?r = ''http://127.0.0.1:5000/apply''"
    by (simp add: url_def hostport_def default_port_def str_int_5000)
  have h: "header_get (headers ?r) ''Host'' = Some ''staging.api.example.com''"
    by code_simp
  show ?thesis using r u h by simp
qed

text \<open>
  C2, as the specification states it: matching is case-insensitive on the host. It is
  not. The request below names the staging host in capitals and has a path that starts
  with the prefix; its host equals the configured one once both are put in lower case, yet
  the hook does not match it, leaves it as it is and logs it as ignored.
\<close>

theorem host_match_case_counterexample:
  "lower (pretty_host shouting_request) = lower (STAGING_HOST default_config)
   \<and> startswith (path shouting_request) MATCH_PREFIX
   \<and> \<not> matches default_config shouting_request
   \<and> request quiet_logger default_config \<lparr>flow_request = shouting_request, ctx_log = []\<rparr>
       = (Inr (), \<lparr>flow_request = shouting_request,
                   ctx_log = [''[MITM] Ignored GET STAGING.API.EXAMPLE.COM/stg/v1/ubah-izin/apply'']\<rparr>)"
proof -
  let ?s = "\<lparr>flow_request = shouting_request, ctx_log = []\<rparr>"
  have a: "lower (pretty_host shouting_request) = lower (STAGING_HOST default_config)"
    by code_simp
  have b: "startswith (path shouting_request) MATCH_PREFIX"
    by code_simp
  have c: "\<not> matches default_config shouting_request"
    by (simp add: matches_def pretty_host_shouting default_config_fields)
  then have n: "\<not> matches default_config (flow_request ?s)"
    by simp
  have "request quiet_logger default_config ?s
      = (Inr (), \<lparr>flow_request = shouting_request,
           ctx_log = [''[MITM] Ignored '' @ method shouting_request @ '' ''
                        @ ''STAGING.API.EXAMPLE.COM'' @ path shouting_request]\<rparr>)"
    by (simp add: request_no_match[OF n] ctx_log_info_def quiet_logger_def pretty_host_shouting)
  then have d: "request quiet_logger default_config ?s
      = (Inr (), \<lparr>flow_request = shouting_request,
           ctx_log = [''[MITM] Ignored GET STAGING.API.EXAMPLE.COM/stg/v1/ubah-izin/apply'']\<rparr>)"
    by (simp add: shouting_request_def)
  show ?thesis using a b c d by blast
qed

text \<open>
  C2, amended: matching is case-sensitive on the host and on the path. The hook emits a
  rewrite record exactly when the request's host is, character for character, the
  configured staging host and the first 18 characters of its path are, character for
  character, the prefix \<^verbatim>\<open>/stg/v1/ubah-izin/\<close>.
\<close>

theorem match_is_exact:
  "(\<exists>m. ctx_log (snd (request lg cfg s)) = ctx_log s @ [m] \<and> is_rewritten_record m)
     \<longleftrightarrow> (pretty_host (flow_request s) = STAGING_HOST cfg
          \<and> take 18 (path (flow_request s)) = ''/stg/v1/ubah-izin/'')"
proof -
  have cond: "matches cfg (flow_request s) \<longleftrightarrow>
      (pretty_host (flow_request s) = STAGING_HOST cfg
          \<and> take 18 (path (flow_request s)) = ''/stg/v1/ubah-izin/'')"
    by (simp only: matches_def startswith_def length_MATCH_PREFIX) (simp only: MATCH_PREFIX_def)
  show ?thesis
  proof (cases "matches cfg (flow_request s)")
    case True
    then show ?thesis
      using request_log[of lg cfg s] request_log_match[of cfg s lg] cond by blast
  next
    case False
    have "\<not> is_rewritten_record (last (ctx_log (snd (request lg cfg s))))"
      using request_log_no_match[OF False] record_kinds_disjoint by blast
    moreover have "m = last (ctx_log (snd (request lg cfg s)))"
      if "ctx_log (snd (request lg cfg s)) = ctx_log s @ [m]" for m
      using that by simp
    ultimately show ?thesis using False cond by blast
  qed
qed

theorem match_is_exact_witness:
  "(\<exists>m. ctx_log (snd (request quiet_logger default_config scenario_state)) = ctx_log scenario_state @ [m]
        \<and> is_rewritten_record m)
   \<and> \<not> (\<exists>m. ctx_log (snd (request quiet_logger default_config
               \<lparr>flow_request = shouting_request, ctx_log = []\<rparr>)) = [] @ [m] \<and> is_rewritten_record m)
   \<and> \<not> (\<exists>m. ctx_log (snd (request quiet_logger default_config
               \<lparr>flow_request = capital_path_request, ctx_log = []\<rparr>)) = [] @ [m] \<and> is_rewritten_record m)"
proof -
  have a: "pretty_host (flow_request scenario_state) = STAGING_HOST default_config
          \<and> take 18 (path (flow_request scenario_state)) = ''/stg/v1/ubah-izin/''"
    by (simp add: scenario_state_def pretty_host_staging default_config_fields)
      (simp add: scenario_request_def)
  have b: "pretty_host shouting_request \<noteq> STAGING_HOST default_config"
    by (simp add: pretty_host_shouting default_config_fields)
  have c: "take 18 (path capital_path_request) \<noteq> ''/stg/v1/ubah-izin/''"
    by (simp add: capital_path_request_def)
  show ?thesis
    using a b c
      match_is_exact[of quiet_logger default_config scenario_state]
      match_is_exact[of quiet_logger default_config "\<lparr>flow_request = shouting_request, ctx_log = []\<rparr>"]
      match_is_exact[of quiet_logger default_config "\<lparr>flow_request = capital_path_request, ctx_log = []\<rparr>"]
    by simp
qed

text \<open>
  C3. When the hook matches a request, the new path is the old path from index
  \<open>length MATCH_PREFIX - 1\<close> on: the prefix is gone except for its last character,
  the \<^verbatim>\<open>/\<close> that now leads the path. The witness is the path
  \<^verbatim>\<open>/stg/v1/ubah-izin/apply\<close>, which becomes \<^verbatim>\<open>/apply\<close>.
\<close>

theorem trimmed_path:
  assumes "matches cfg (flow_request s)"
  shows "path (flow_request (snd (request lg cfg s)))
           = drop (length MATCH_PREFIX - 1) (path (flow_request s))
       \<and> path (flow_request (snd (request lg cfg s)))
           = CHR ''/'' # drop (length MATCH_PREFIX) (path (flow_request s))"
proof -
  have sw: "startswith (path (flow_request s)) MATCH_PREFIX"
    using assms by (simp add: matches_def)
  have "path (flow_request (snd (request lg cfg s))) = drop 17 (path (flow_request s))"
    by (simp add: request_match[OF assms])
  then show ?thesis
    using startswith_split(2)[OF sw] by (simp add: length_MATCH_PREFIX)
qed

theorem trimmed_path_witness:
  "matches default_config (flow_request scenario_state)
   \<and> path (flow_request scenario_state) = ''/stg/v1/ubah-izin/apply''
   \<and> path (flow_request (snd (request quiet_logger default_config scenario_state))) = ''/apply''"
proof -
  have m: "matches default_config (flow_request scenario_state)"
    using scenario_matches by (simp add: scenario_state_def)
  have p: "path (flow_request scenario_state) = ''/stg/v1/ubah-izin/apply''"
    by (simp add: scenario_state_def scenario_request_def)
  have "path (flow_request (snd (request quiet_logger default_config scenario_state)))
          = drop (length MATCH_PREFIX - 1) (path (flow_request scenario_state))"
    using trimmed_path[OF m, of quiet_logger] by simp
  also have "\<dots> = ''/apply''"
    by (simp add: p length_MATCH_PREFIX)
  finally show ?thesis using m p by simp
qed

text \<open>
  C4. When the hook matches a request, the \<^verbatim>\<open>Host\<close> header of the rewritten request is
  the host the request had when the hook was entered (the host the hook matched on, the
  staging host), not the address the request is redirected to. In the witness the host
  attribute becomes \<^verbatim>\<open>127.0.0.1\<close> while the header reads \<^verbatim>\<open>staging.api.example.com\<close>.
\<close>

theorem host_header_preserved:
  assumes "matches cfg (flow_request s)"
  shows "header_get (headers (flow_request (snd (request lg cfg s)))) ''Host''
           = Some (pretty_host (flow_request s))
       \<and> header_get (headers (flow_request (snd (request lg cfg s)))) ''Host''
           = Some (STAGING_HOST cfg)"
proof -
  have "pretty_host (flow_request s) = STAGING_HOST cfg"
    using assms by (simp add: matches_def)
  then show ?thesis
    by (simp add: request_match[OF assms] header_get_set_item)
qed

theorem host_header_preserved_witness:
  "matches default_config (flow_request \<lparr>flow_request = tls_request, ctx_log = []\<rparr>)
   \<and> header_get (headers (flow_request (snd (request quiet_logger default_config
         \<lparr>flow_request = tls_request, ctx_log = []\<rparr>)))) ''Host'' = Some ''staging.api.example.com''
   \<and> host (flow_request (snd (request quiet_logger default_config
         \<lparr>flow_request = tls_request, ctx_log = []\<rparr>))) = ''127.0.0.1''"
proof -
  let ?s = "\<lparr>flow_request = tls_request, ctx_log = []\<rparr>"
  have m: "matches default_config (flow_request ?s)"
    using tls_matches by simp
  have "header_get (headers (flow_request (snd (request quiet_logger default_config ?s)))) ''Host''
          = Some (STAGING_HOST default_config)"
    using host_header_preserved[OF m, of quiet_logger] by blast
  then have a: "header_get (headers (flow_request (snd (request quiet_logger default_config ?s)))) ''Host''
          = Some ''staging.api.example.com''"
    by (simp only: default_config_fields)
  have "host (flow_request (snd (request quiet_logger default_config ?s))) = LOCAL_ADDRESS default_config"
    by (simp add: request_match[OF m])
  then have b: "host (flow_request (snd (request quiet_logger default_config ?s))) = ''127.0.0.1''"
    by (simp only: default_config_fields)
  show ?thesis using m a b by blast
qed

text \<open>
  C5. When the request's host is not the staging host, or its path does not start with
  the prefix, the hook leaves the request as it was, field for field, and adds exactly one
  text to the log, an "ignored" record made of the method, the host and the path.
\<close>

theorem passthrough:
  assumes "pretty_host (flow_request s) \<noteq> STAGING_HOST cfg
           \<or> \<not> startswith (path (flow_request s)) MATCH_PREFIX"
  shows "flow_request (snd (request lg cfg s)) = flow_request s
       \<and> ctx_log (snd (request lg cfg s))
           = ctx_log s @ [''[MITM] Ignored '' @ method (flow_request s) @ '' ''
                            @ pretty_host (flow_request s) @ path (flow_request s)]
       \<and> is_ignored_record (''[MITM] Ignored '' @ method (flow_request s) @ '' ''
                            @ pretty_host (flow_request s) @ path (flow_request s))"
proof -
  have n: "\<not> matches cfg (flow_request s)"
    using assms by (auto simp: matches_def)
  have "is_ignored_record (''[MITM] Ignored '' @ m)" for m
    by (simp add: is_ignored_record_def startswith_def)
  then show ?thesis
    by (simp add: request_no_match[OF n] ctx_log_info_def)
qed

theorem passthrough_witness:
  "pretty_host (flow_request \<lparr>flow_request = other_request, ctx_log = []\<rparr>) \<noteq> STAGING_HOST default_config
   \<and> flow_request (snd (request quiet_logger default_config \<lparr>flow_request = other_request, ctx_log = []\<rparr>))
       = other_request
   \<and> ctx_log (snd (request quiet_logger default_config \<lparr>flow_request = other_request, ctx_log = []\<rparr>))
       = [''[MITM] Ignored GET example.org/index.html'']"
proof -
  let ?s = "\<lparr>flow_request = other_request, ctx_log = []\<rparr>"
  have h: "pretty_host (flow_request ?s) \<noteq> STAGING_HOST default_config"
    by (simp add: pretty_host_other default_config_fields)
  have t: "''[MITM] Ignored '' @ method other_request @ '' '' @ pretty_host other_request @ path other_request
             = ''[MITM] Ignored GET example.org/index.html''"
    by (simp add: pretty_host_other) (simp add: other_request_def)
  show ?thesis
    using h t passthrough[of ?s default_config quiet_logger] by simp
qed

text \<open>
  C6, as the specification states it: an exception raised inside the hook is caught at
  the hook's boundary, and the request goes on unrewritten. The hook has no handler.
  With a log call that raises, the hook run on the scenario's request ends with that
  exception, and the request it leaves is the rewritten one, not the original.
\<close>

theorem hook_raises_counterexample:
  "fst (request broken_logger default_config scenario_state) = Inl (Exn ''OSError'')
   \<and> flow_request (snd (request broken_logger default_config scenario_state)) \<noteq> scenario_request
   \<and> host (flow_request (snd (request broken_logger default_config scenario_state))) = ''127.0.0.1''
   \<and> path (flow_request (snd (request broken_logger default_config scenario_state))) = ''/apply''"
proof -
  have m: "matches default_config (flow_request scenario_state)"
    using scenario_matches by (simp add: scenario_state_def)
  have a: "fst (request broken_logger default_config scenario_state) = Inl (Exn ''OSError'')"
    by (simp add: request_raises broken_logger_def)
  have b: "host (flow_request (snd (request broken_logger default_config scenario_state))) = ''127.0.0.1''"
    by (simp add: request_match[OF m] default_config_fields)
  have c: "path (flow_request (snd (request broken_logger default_config scenario_state))) = ''/apply''"
    by (simp add: request_match[OF m]) (simp add: scenario_state_def scenario_request_def)
  have "path scenario_request \<noteq> ''/apply''"
    by (simp add: scenario_request_def)
  with c have d: "flow_request (snd (request broken_logger default_config scenario_state)) \<noteq> scenario_request"
    by metis
  show ?thesis using a b c d by blast
qed

text \<open>
  C6, amended: the hook contains no exception handler. Its result is the result of its
  one log call: when that call raises, the hook ends with the same exception, which so
  reaches the proxy that called the hook; when it returns, the hook returns. Either way
  the hook leaves the request and the log exactly as a run with a log call that returns
  does: rewritten when the request matched, untouched when it did not.
\<close>

theorem hook_has_no_handler:
  "fst (request lg cfg s)
     = (case lg (last (ctx_log (snd (request lg cfg s)))) of None \<Rightarrow> Inr () | Some e \<Rightarrow> Inl e)
   \<and> snd (request lg cfg s) = snd (request quiet_logger cfg s)"
  using request_raises[of lg cfg s] request_state_any_logger[of lg cfg s quiet_logger]
  by simp

text \<open>
  C7. Every run of the hook adds exactly one text to the log: a "rewritten" record when
  the request matches and an "ignored" record when it does not, and never a text of the
  other kind.
\<close>

theorem one_log_record:
  "\<exists>m. ctx_log (snd (request lg cfg s)) = ctx_log s @ [m]
       \<and> (if matches cfg (flow_request s)
          then is_rewritten_record m \<and> \<not> is_ignored_record m
          else is_ignored_record m \<and> \<not> is_rewritten_record m)"
proof (cases "matches cfg (flow_request s)")
  case True
  then show ?thesis
    using request_log[of lg cfg s] request_log_match[OF True, of lg] record_kinds_disjoint
    by auto
next
  case False
  then show ?thesis
    using request_log[of lg cfg s] request_log_no_match[OF False, of lg] record_kinds_disjoint
    by auto
qed



text \<open>
  C9. When the hook matches a request, the scheme of the rewritten request is
  \<^verbatim>\<open>http\<close>, whatever it was before. The witness is a request that came in over
  \<^verbatim>\<open>https\<close>.
\<close>

theorem scheme_forced_http:
  assumes "matches cfg (flow_request s)"
  shows "scheme (flow_request (snd (request lg cfg s))) = ''http''"
  by (simp add: request_match[OF assms])

theorem scheme_forced_http_witness:
  "scheme tls_request = ''https''
   \<and> matches default_config (flow_request \<lparr>flow_request = tls_request, ctx_log = []\<rparr>)
   \<and> scheme (flow_request (snd (request quiet_logger default_config
        \<lparr>flow_request = tls_request, ctx_log = []\<rparr>))) = ''http''"
proof -
  have m: "matches default_config (flow_request \<lparr>flow_request = tls_request, ctx_log = []\<rparr>)"
    using tls_matches by simp
  have "scheme tls_request = ''https''"
    by (simp add: tls_request_def)
  then show ?thesis
    using m scheme_forced_http[OF m, of quiet_logger] by blast
qed




end
